theory Spec2Isabelle
  imports Main
begin

section \<open>Values and call descriptors\<close>

text \<open>
  Addresses, hashes and identifiers are JavaScript strings. An ethers \<open>BigNumber\<close> is an
  arbitrary-precision integer object: \<open>add\<close> is exact, \<open>isZero\<close> tests for 0, \<open>gte\<close> is \<open>\<ge>\<close>.
\<close>

type_synonym address = string
type_synonym BigNumber = int

text \<open>A JavaScript \<open>Error\<close> carrying its message.\<close>

datatype error = Error string

record Outcome =
  outcome_name :: string
  outcome_probability :: int

text \<open>
  Modelled from the spec: the \<open>encode*\<close> functions of the contract services
  (\<open>ERC20Service\<close>, \<open>MarketMakerService\<close>, \<open>ConditionalTokenService\<close>, \<open>RealitioService\<close>,
  \<open>MarketMakerFactoryService\<close>, \<open>OracleService\<close>, the proxy's interface) are missing from
  the sources. The spec has them as pure encoders of one logical operation into an opaque
  payload; a payload is represented by the operation and the arguments it encodes.
\<close>

datatype calldata =
    encodeTransferFrom address address BigNumber
  | encodeTransfer address BigNumber
  | encodeApproveUnlimited address
  | encodeBuy BigNumber nat BigNumber
  | encodeSell BigNumber nat BigNumber
  | encodeAddFunding BigNumber
  | encodeRemoveFunding BigNumber
  | encodeMergePositions address string nat BigNumber
  | encodeRedeemPositions address string nat
  | encodeSetApprovalForAll address bool
  | encodePrepareCondition string address nat
  | encodeAskQuestion string "Outcome list" string address int nat
  | encodeCreateMarketMaker nat address address string int BigNumber "BigNumber list"
  | encodeResolveCondition string nat string nat
  | encodeChangeMasterCopy address

text \<open>
  One element of the \<open>transactions\<close> array: the object literals \<open>{ to, data }\<close> and
  \<open>{ to, value }\<close>. A property the literal does not set is \<open>None\<close>.
\<close>

record tx =
  tx_to :: address
  tx_data :: "calldata option"
  tx_value :: "BigNumber option"

text \<open>\<open>interface TxOptions { value?: BigNumber; gas?: number }\<close>\<close>

record TxOptions =
  opt_value :: "BigNumber option"
  opt_gas :: "nat option"

section \<open>Effects: the trace of a workflow\<close>

text \<open>
  Every awaited query and every local lookup that can throw is a call to a collaborator.
  A run of a workflow yields its result (\<open>Inl\<close> the thrown error) and the trace of what it
  did, in order: the calls it made and whether each returned, the batches it handed to
  \<open>cpk.execTransactions\<close>, the hashes it waited for, and its log lines.
\<close>

datatype call =
    SignerGetAddress
  | ProviderGetNetwork
  | GetToken
  | GetContractAddress
  | GetCollateralToken
  | CalcBuyAmount
  | CalcSellAmount
  | HasEnoughAllowance
  | IsApprovedForAll
  | AskQuestionConstant
  | DoesConditionExist
  | PredictMarketMakerAddress
  | GetConditionId
  | IsProxyDeployed
  | MasterCopy
  | PayoutNumerators
  | PayoutDenominator

datatype event =
    Called call bool
  | ExecTransactions "tx list" "TxOptions option"
  | WaitForTransaction string
  | ContractRedeemPositions address address string string "nat list"
  | Logged
  | LoggedError

type_synonym 'a run = "(error + 'a) \<times> event list"

definition return :: "'a \<Rightarrow> 'a run" where
  "return x = (Inr x, [])"

definition throw :: "error \<Rightarrow> 'a run" where
  "throw e = (Inl e, [])"

text \<open>Sequencing: a thrown error skips the rest; the traces are appended.\<close>

definition andThen :: "'a run \<Rightarrow> ('a \<Rightarrow> 'b run) \<Rightarrow> 'b run" where
  "andThen m f =
     (case fst m of
        Inl e \<Rightarrow> (Inl e, snd m)
      | Inr x \<Rightarrow> (fst (f x), snd m @ snd (f x)))"

text \<open>\<open>await\<close> of a collaborator's call whose outcome is \<open>r\<close>.\<close>

fun returned :: "error + 'a \<Rightarrow> bool" where
  "returned (Inl e) = False"
| "returned (Inr x) = True"

definition await :: "call \<Rightarrow> error + 'a \<Rightarrow> 'a run" where
  "await c r = (r, [Called c (returned r)])"

text \<open>\<open>logger.log(...)\<close>\<close>

definition logger_log :: "unit run" where
  "logger_log = (Inr (), [Logged])"

text \<open>\<open>try { ... } catch (err) { logger.error(..., err.message); throw err }\<close>\<close>

definition tryLogRethrow :: "'a run \<Rightarrow> 'a run" where
  "tryLogRethrow m =
     (case fst m of
        Inl e \<Rightarrow> (Inl e, snd m @ [LoggedError])
      | Inr x \<Rightarrow> m)"

text \<open>The batches handed to \<open>execTransactions\<close> during a run, in order.\<close>

fun submissions :: "event list \<Rightarrow> (tx list \<times> TxOptions option) list" where
  "submissions [] = []"
| "submissions (ExecTransactions txs opts # es) = (txs, opts) # submissions es"
| "submissions (e # es) = submissions es"

section \<open>Collaborators\<close>

text \<open>
  The service objects a workflow receives, as records of their address and of the outcome
  of each method the workflows call. Their classes are not in the sources (the
  \<open>ConditionalTokenService\<close> the workflows receive is an instance with an address, not the
  static class below); only the members used are listed.
\<close>

record MarketMakerService =
  mm_address :: address
  getCollateralToken :: "error + address"
  calcBuyAmount :: "BigNumber \<Rightarrow> nat \<Rightarrow> error + BigNumber"
  calcSellAmount :: "BigNumber \<Rightarrow> nat \<Rightarrow> error + BigNumber"
  mm_getConditionId :: "error + string"

text \<open>
  Modelled from the spec: \<open>conditionalTokens.getConditionId\<close> is missing from the sources;
  by the spec it is a pure function of (question id, oracle address, outcome count) that
  never fails.
\<close>

record ConditionalTokens =
  ct_address :: address
  isApprovedForAll :: "address \<Rightarrow> address \<Rightarrow> error + bool"
  doesConditionExist :: "string \<Rightarrow> error + bool"
  getConditionId :: "string \<Rightarrow> address \<Rightarrow> nat \<Rightarrow> string"

record RealitioService =
  realitio_address :: address
  askQuestionConstant ::
    "string \<Rightarrow> Outcome list \<Rightarrow> string \<Rightarrow> address \<Rightarrow> int \<Rightarrow> nat \<Rightarrow> address \<Rightarrow> error + string"

record MarketMakerFactoryService =
  factory_address :: address
  predictMarketMakerAddress ::
    "nat \<Rightarrow> address \<Rightarrow> address \<Rightarrow> string \<Rightarrow> address \<Rightarrow> int \<Rightarrow> error + address"

record OracleService =
  oracle_address :: address

record Token =
  token_address :: address
  token_symbol :: string
  token_decimals :: nat

record Arbitrator =
  arbitrator_address :: address

record Question =
  question_id :: string
  question_templateId :: nat
  question_raw :: string

text \<open>
  \<open>MarketData\<close>, with the fields \<open>createMarket\<close> reads. \<open>resolution\<close> is a \<open>Date\<close> or
  \<open>null\<close> (a time stamp here); \<open>loadedQuestionId\<close> is a string or \<open>null\<close>.
\<close>

record MarketData =
  arbitrator :: Arbitrator
  category :: string
  loadedQuestionId :: "string option"
  outcomes :: "Outcome list"
  question :: string
  resolution :: "int option"
  spread :: int
  collateral :: Token
  funding :: BigNumber

text \<open>The signer, provider, proxy kit and proxy contract held by a \<open>CPKService\<close>.
  \<open>getNetwork\<close> gives the \<open>chainId\<close> of the network; \<open>execTransactions\<close> the hash of the
  transaction object.\<close>

record CPKService =
  cpk_address :: address
  execTransactions :: "tx list \<Rightarrow> TxOptions option \<Rightarrow> error + string"
  isProxyDeployed :: "error + bool"
  signer_getAddress :: "error + address"
  getNetwork :: "error + nat"
  waitForTransaction :: "string \<Rightarrow> error + string"
  masterCopy :: "error + address"

text \<open>
  What the module imports and is not in the sources: the constants and the lookups
  \<open>getToken\<close>, \<open>getContractAddress\<close> of \<open>../util/networks\<close> (a lookup throws for a network
  it does not know), \<open>calcDistributionHint\<close> of \<open>../util/tools\<close>, the allowance table
  the \<open>ERC20Service\<close> reads (token, owner, spender), and the value
  \<open>Math.round(Math.random() * 1000000)\<close> takes in this run.
\<close>

record Imports =
  pseudoEthAddress :: address
  targetGnosisSafeImplementation :: address
  getToken :: "nat \<Rightarrow> string \<Rightarrow> error + Token"
  getContractAddress :: "nat \<Rightarrow> string \<Rightarrow> error + address"
  calcDistributionHint :: "int list \<Rightarrow> BigNumber list"
  allowance :: "address \<Rightarrow> address \<Rightarrow> address \<Rightarrow> error + BigNumber"
  saltNonce :: nat

text \<open>
  Modelled from the spec: \<open>ERC20Service.hasEnoughAllowance(owner, spender, neededAmount)\<close>
  is missing from the sources; by the spec the allowance is enough when it is at least
  the requested amount. The service is constructed for the token at \<open>token\<close>.
\<close>

definition hasEnoughAllowance ::
  "Imports \<Rightarrow> address \<Rightarrow> address \<Rightarrow> address \<Rightarrow> BigNumber \<Rightarrow> error + bool" where
  "hasEnoughAllowance I token owner spender neededAmount =
     (case allowance I token owner spender of
        Inl e \<Rightarrow> Inl e
      | Inr a \<Rightarrow> Inr (neededAmount \<le> a))"

definition exec :: "CPKService \<Rightarrow> tx list \<Rightarrow> TxOptions option \<Rightarrow> string run" where
  "exec this transactions txOptions =
     (execTransactions this transactions txOptions, [ExecTransactions transactions txOptions])"

definition wait :: "CPKService \<Rightarrow> string \<Rightarrow> string run" where
  "wait this txHash = (waitForTransaction this txHash, [WaitForTransaction txHash])"

text \<open>
  JavaScript truthiness of a value that is a string or \<open>null\<close>: the empty string is falsy.
\<close>

fun truthy :: "string option \<Rightarrow> bool" where
  "truthy None = False"
| "truthy (Some s) = (s \<noteq> [])"

section \<open>CPKService: the workflows\<close>

definition buyOutcomes ::
  "Imports \<Rightarrow> CPKService \<Rightarrow> BigNumber \<Rightarrow> MarketMakerService \<Rightarrow> nat \<Rightarrow> string run" where
  "buyOutcomes I this amount marketMaker outcomeIndex = tryLogRethrow (
     andThen (await SignerGetAddress (signer_getAddress this)) (\<lambda>account.
     andThen (await GetCollateralToken (getCollateralToken marketMaker)) (\<lambda>collateralAddress.
     let marketMakerAddress = mm_address marketMaker in
     andThen logger_log (\<lambda>_.
     andThen (await CalcBuyAmount (calcBuyAmount marketMaker amount outcomeIndex))
       (\<lambda>outcomeTokensToBuy.
     andThen logger_log (\<lambda>_.
     let transactions =
       [\<lparr>tx_to = collateralAddress,
         tx_data = Some (encodeTransferFrom account (cpk_address this) amount),
         tx_value = None\<rparr>,
        \<lparr>tx_to = marketMakerAddress,
         tx_data = Some (encodeBuy amount outcomeIndex outcomeTokensToBuy),
         tx_value = None\<rparr>] in
     andThen (await HasEnoughAllowance
        (hasEnoughAllowance I collateralAddress (cpk_address this) marketMakerAddress amount))
       (\<lambda>hasCPKEnoughAlowance.
     let transactions =
       (if \<not> hasCPKEnoughAlowance
        then \<lparr>tx_to = collateralAddress,
               tx_data = Some (encodeApproveUnlimited marketMakerAddress),
               tx_value = None\<rparr> # transactions
        else transactions) in
     andThen (exec this transactions None) (\<lambda>txHash.
     andThen logger_log (\<lambda>_.
     wait this txHash)))))))))"

text \<open>
  \<open>createMarket\<close>. \<open>moment(resolution)\<close> is carried as the time stamp itself. The mutable
  \<open>collateral\<close>, \<open>txOptions\<close>, \<open>questionId\<close> and \<open>transactions\<close> are rebound after each
  branch that assigns them. It returns the predicted market maker address.
\<close>

definition createMarket ::
  "Imports \<Rightarrow> CPKService \<Rightarrow> ConditionalTokens \<Rightarrow> MarketData \<Rightarrow> MarketMakerFactoryService \<Rightarrow>
   RealitioService \<Rightarrow> address run" where
  "createMarket I this conditionalTokens marketData marketMakerFactory realitio = tryLogRethrow (
     if resolution marketData = None
     then throw (Error ''Resolution time was not specified'')
     else
     andThen (await SignerGetAddress (signer_getAddress this)) (\<lambda>account.
     andThen (await ProviderGetNetwork (getNetwork this)) (\<lambda>networkId.
     let conditionalTokensAddress = ct_address conditionalTokens;
         realitioAddress = realitio_address realitio;
         openingDateMoment = the (resolution marketData);
         transactions = [];
         txOptions = \<lparr>opt_value = None, opt_gas = None\<rparr> in
     andThen
       (if token_address (collateral marketData) = pseudoEthAddress I
        then andThen (await GetToken (getToken I networkId ''weth'')) (\<lambda>weth.
               return (weth, txOptions\<lparr>opt_value := Some (funding marketData)\<rparr>,
                 transactions @
                 [\<lparr>tx_to = token_address weth, tx_data = None,
                   tx_value = Some (funding marketData)\<rparr>]))
        else return (collateral marketData, txOptions, transactions))
       (\<lambda>(collateral', txOptions, transactions).
     andThen
       (if truthy (loadedQuestionId marketData)
        then return (the (loadedQuestionId marketData), transactions)
        else
          let transactions = transactions @
                [\<lparr>tx_to = realitioAddress,
                  tx_data = Some (encodeAskQuestion (question marketData) (outcomes marketData)
                    (category marketData) (arbitrator_address (arbitrator marketData))
                    openingDateMoment networkId),
                  tx_value = None\<rparr>] in
          andThen (await AskQuestionConstant
             (askQuestionConstant realitio (question marketData) (outcomes marketData)
                (category marketData) (arbitrator_address (arbitrator marketData))
                openingDateMoment networkId (cpk_address this)))
            (\<lambda>questionId. return (questionId, transactions)))
       (\<lambda>(questionId, transactions).
     andThen logger_log (\<lambda>_.
     andThen (await GetContractAddress (getContractAddress I networkId ''oracle''))
       (\<lambda>oracleAddress.
     let conditionId =
           getConditionId conditionalTokens questionId oracleAddress
             (length (outcomes marketData)) in
     andThen
       (if truthy (loadedQuestionId marketData)
        then await DoesConditionExist (doesConditionExist conditionalTokens conditionId)
        else return False)
       (\<lambda>conditionExists.
     andThen
       (if \<not> conditionExists
        then andThen logger_log (\<lambda>_.
               return (transactions @
                 [\<lparr>tx_to = conditionalTokensAddress,
                   tx_data = Some (encodePrepareCondition questionId oracleAddress
                     (length (outcomes marketData))),
                   tx_value = None\<rparr>]))
        else return transactions)
       (\<lambda>transactions.
     andThen logger_log (\<lambda>_.
     let transactions = transactions @
           [\<lparr>tx_to = token_address collateral',
             tx_data = Some (encodeApproveUnlimited (factory_address marketMakerFactory)),
             tx_value = None\<rparr>];
         transactions =
           (if token_address (collateral marketData) \<noteq> pseudoEthAddress I
            then transactions @
                 [\<lparr>tx_to = token_address collateral',
                   tx_data = Some (encodeTransferFrom account (cpk_address this)
                     (funding marketData)),
                   tx_value = None\<rparr>]
            else transactions) in
     andThen (await PredictMarketMakerAddress
        (predictMarketMakerAddress marketMakerFactory (saltNonce I)
           (ct_address conditionalTokens) (token_address collateral') conditionId
           (cpk_address this) (spread marketData)))
       (\<lambda>predictedMarketMakerAddress.
     andThen logger_log (\<lambda>_.
     let distributionHint =
           calcDistributionHint I (map outcome_probability (outcomes marketData));
         transactions = transactions @
           [\<lparr>tx_to = factory_address marketMakerFactory,
             tx_data = Some (encodeCreateMarketMaker (saltNonce I)
               (ct_address conditionalTokens) (token_address collateral') conditionId
               (spread marketData) (funding marketData) distributionHint),
             tx_value = None\<rparr>] in
     andThen (exec this transactions (Some txOptions)) (\<lambda>txHash.
     andThen logger_log (\<lambda>_.
     andThen (wait this txHash) (\<lambda>_.
     return predictedMarketMakerAddress)))))))))))))))"

definition sellOutcomes ::
  "CPKService \<Rightarrow> BigNumber \<Rightarrow> ConditionalTokens \<Rightarrow> MarketMakerService \<Rightarrow> nat \<Rightarrow> string run" where
  "sellOutcomes this amount conditionalTokens marketMaker outcomeIndex = tryLogRethrow (
     andThen (await SignerGetAddress (signer_getAddress this)) (\<lambda>account.
     andThen (await CalcSellAmount (calcSellAmount marketMaker amount outcomeIndex))
       (\<lambda>outcomeTokensToSell.
     andThen (await GetCollateralToken (getCollateralToken marketMaker)) (\<lambda>collateralAddress.
     let transactions = [] in
     andThen (await IsApprovedForAll
        (isApprovedForAll conditionalTokens (cpk_address this) (mm_address marketMaker)))
       (\<lambda>isAlreadyApprovedForMarketMaker.
     let transactions =
           (if \<not> isAlreadyApprovedForMarketMaker
            then transactions @
                 [\<lparr>tx_to = ct_address conditionalTokens,
                   tx_data = Some (encodeSetApprovalForAll (mm_address marketMaker) True),
                   tx_value = None\<rparr>]
            else transactions);
         transactions = transactions @
           [\<lparr>tx_to = mm_address marketMaker,
             tx_data = Some (encodeSell amount outcomeIndex outcomeTokensToSell),
             tx_value = None\<rparr>,
            \<lparr>tx_to = collateralAddress,
             tx_data = Some (encodeTransfer account amount),
             tx_value = None\<rparr>] in
     andThen (exec this transactions None) (\<lambda>txHash.
     andThen logger_log (\<lambda>_.
     wait this txHash)))))))"

definition addFunding ::
  "Imports \<Rightarrow> CPKService \<Rightarrow> BigNumber \<Rightarrow> Token \<Rightarrow> MarketMakerService \<Rightarrow> string run" where
  "addFunding I this amount collateral' marketMaker = tryLogRethrow (
     andThen (await SignerGetAddress (signer_getAddress this)) (\<lambda>account.
     andThen (await ProviderGetNetwork (getNetwork this)) (\<lambda>networkId.
     let transactions = [];
         txOptions = \<lparr>opt_value = None, opt_gas = None\<rparr> in
     andThen
       (if token_address collateral' = pseudoEthAddress I
        then andThen (await GetToken (getToken I networkId ''weth'')) (\<lambda>weth.
               let collateralAddress = token_address weth in
               return (collateralAddress, txOptions\<lparr>opt_value := Some amount\<rparr>,
                 transactions @
                 [\<lparr>tx_to = collateralAddress, tx_data = None, tx_value = Some amount\<rparr>]))
        else return (token_address collateral', txOptions, transactions))
       (\<lambda>(collateralAddress, txOptions, transactions).
     andThen (await HasEnoughAllowance
        (hasEnoughAllowance I collateralAddress (cpk_address this) (mm_address marketMaker)
           amount))
       (\<lambda>hasCPKEnoughAlowance.
     let transactions =
           (if \<not> hasCPKEnoughAlowance
            then transactions @
                 [\<lparr>tx_to = collateralAddress,
                   tx_data = Some (encodeApproveUnlimited (mm_address marketMaker)),
                   tx_value = None\<rparr>]
            else transactions);
         transactions =
           (if token_address collateral' \<noteq> pseudoEthAddress I
            then transactions @
                 [\<lparr>tx_to = collateralAddress,
                   tx_data = Some (encodeTransferFrom account (cpk_address this) amount),
                   tx_value = None\<rparr>]
            else transactions);
         transactions = transactions @
           [\<lparr>tx_to = mm_address marketMaker,
             tx_data = Some (encodeAddFunding amount),
             tx_value = None\<rparr>] in
     andThen (exec this transactions (Some txOptions)) (\<lambda>txHash.
     andThen logger_log (\<lambda>_.
     wait this txHash)))))))"

definition removeFunding ::
  "CPKService \<Rightarrow> BigNumber \<Rightarrow> address \<Rightarrow> string \<Rightarrow> ConditionalTokens \<Rightarrow> BigNumber \<Rightarrow>
   MarketMakerService \<Rightarrow> nat \<Rightarrow> BigNumber \<Rightarrow> string run" where
  "removeFunding this amountToMerge collateralAddress conditionId conditionalTokens earnings
     marketMaker outcomesCount sharesToBurn = tryLogRethrow (
     andThen (await SignerGetAddress (signer_getAddress this)) (\<lambda>account.
     let removeFundingTx =
           \<lparr>tx_to = mm_address marketMaker,
            tx_data = Some (encodeRemoveFunding sharesToBurn),
            tx_value = None\<rparr>;
         mergePositionsTx =
           \<lparr>tx_to = ct_address conditionalTokens,
            tx_data = Some (encodeMergePositions collateralAddress conditionId outcomesCount
              amountToMerge),
            tx_value = None\<rparr>;
         transferCollateralTx =
           \<lparr>tx_to = collateralAddress,
            tx_data = Some (encodeTransfer account (amountToMerge + earnings)),
            tx_value = None\<rparr>;
         transactions = [removeFundingTx, mergePositionsTx, transferCollateralTx] in
     andThen (exec this transactions None) (\<lambda>txHash.
     andThen logger_log (\<lambda>_.
     wait this txHash))))"

text \<open>
  \<open>redeemPositions\<close>. \<open>earnedCollateral\<close> is declared a \<open>BigNumber\<close>, an object: the test
  \<open>if (earnedCollateral)\<close> holds for every \<open>BigNumber\<close>, zero included, and fails only for
  \<open>null\<close> or \<open>undefined\<close>, which is \<open>None\<close> here.
\<close>

definition redeemPositions ::
  "CPKService \<Rightarrow> Token \<Rightarrow> ConditionalTokens \<Rightarrow> BigNumber option \<Rightarrow> bool \<Rightarrow> MarketMakerService \<Rightarrow>
   nat \<Rightarrow> OracleService \<Rightarrow> Question \<Rightarrow> string run" where
  "redeemPositions this collateralToken conditionalTokens earnedCollateral isConditionResolved
     marketMaker numOutcomes oracle question' = tryLogRethrow (
     andThen (await SignerGetAddress (signer_getAddress this)) (\<lambda>account.
     let transactions = [];
         transactions =
           (if \<not> isConditionResolved
            then transactions @
                 [\<lparr>tx_to = oracle_address oracle,
                   tx_data = Some (encodeResolveCondition (question_id question')
                     (question_templateId question') (question_raw question') numOutcomes),
                   tx_value = None\<rparr>]
            else transactions) in
     andThen (await GetConditionId (mm_getConditionId marketMaker)) (\<lambda>conditionId.
     let transactions = transactions @
           [\<lparr>tx_to = ct_address conditionalTokens,
             tx_data = Some (encodeRedeemPositions (token_address collateralToken) conditionId
               numOutcomes),
             tx_value = None\<rparr>];
         transactions =
           (case earnedCollateral of
              Some earned \<Rightarrow> transactions @
                 [\<lparr>tx_to = token_address collateralToken,
                   tx_data = Some (encodeTransfer account earned),
                   tx_value = None\<rparr>]
            | None \<Rightarrow> transactions) in
     andThen (exec this transactions None) (\<lambda>txHash.
     andThen logger_log (\<lambda>_.
     wait this txHash)))))"

text \<open>
  \<open>String.prototype.toLowerCase\<close> on the characters a \<open>char\<close> holds (code points 0 to 255):
  A to Z, and the Latin-1 capitals 192 to 222 but the multiplication sign 215, move up
  by 32; every other character stays.
\<close>

definition toLowerChar :: "char \<Rightarrow> char" where
  "toLowerChar c =
     (let n = of_char c :: nat in
      if (65 \<le> n \<and> n \<le> 90) \<or> (192 \<le> n \<and> n \<le> 222 \<and> n \<noteq> 215)
      then char_of (n + 32) else c)"

definition toLowerCase :: "string \<Rightarrow> string" where
  "toLowerCase s = map toLowerChar s"

definition proxyIsUpToDate :: "Imports \<Rightarrow> CPKService \<Rightarrow> bool run" where
  "proxyIsUpToDate I this =
     andThen (await IsProxyDeployed (isProxyDeployed this)) (\<lambda>deployed.
     if deployed
     then andThen (await MasterCopy (masterCopy this)) (\<lambda>implementation.
            if toLowerCase implementation = toLowerCase (targetGnosisSafeImplementation I)
            then return True
            else return False)
     else return False)"

section \<open>ConditionalTokenService: the static service\<close>

text \<open>
  What the static service reaches: \<open>getContractAddress\<close> of \<open>../util/addresses\<close> (it throws
  for a network it does not know) and the conditional tokens contract at an address: its
  views, and the outcome of sending \<open>redeemPositions\<close> through the signer.
\<close>

record Chain =
  addresses_getContractAddress :: "nat \<Rightarrow> string \<Rightarrow> error + address"
  payoutNumerators :: "address \<Rightarrow> string \<Rightarrow> nat \<Rightarrow> error + BigNumber"
  payoutDenominator :: "address \<Rightarrow> string \<Rightarrow> error + BigNumber"
  contract_redeemPositions ::
    "address \<Rightarrow> address \<Rightarrow> string \<Rightarrow> string \<Rightarrow> nat list \<Rightarrow> error + string"

text \<open>
  \<open>enum WinnerOutcome\<close> of \<open>../util/types\<close> is not in the sources; these are the two
  members the service uses.
\<close>

datatype WinnerOutcome = Yes | No

text \<open>\<open>ethers.constants.HashZero\<close>: \<open>0x\<close> and 64 zeros.\<close>

definition HashZero :: string where
  "HashZero = ''0x0000000000000000000000000000000000000000000000000000000000000000''"

definition ConditionalTokenService_isConditionResolved ::
  "Chain \<Rightarrow> string \<Rightarrow> nat \<Rightarrow> bool run" where
  "ConditionalTokenService_isConditionResolved chain conditionId networkId =
     andThen (await GetContractAddress
        (addresses_getContractAddress chain networkId ''conditionalTokens''))
       (\<lambda>conditionalTokensAddress.
     andThen (await PayoutDenominator
        (payoutDenominator chain conditionalTokensAddress conditionId))
       (\<lambda>payoutDenominator'.
     return (\<not> (payoutDenominator' = 0))))"

definition ConditionalTokenService_redeemPositions ::
  "Chain \<Rightarrow> address \<Rightarrow> string \<Rightarrow> nat \<Rightarrow> string run" where
  "ConditionalTokenService_redeemPositions chain collateralToken conditionId networkId =
     andThen (await GetContractAddress
        (addresses_getContractAddress chain networkId ''conditionalTokens''))
       (\<lambda>conditionalTokensAddress.
     (contract_redeemPositions chain conditionalTokensAddress collateralToken HashZero
        conditionId [1, 2],
      [ContractRedeemPositions conditionalTokensAddress collateralToken HashZero
        conditionId [1, 2]]))"

definition ConditionalTokenService_getWinnerOutcome ::
  "Chain \<Rightarrow> string \<Rightarrow> nat \<Rightarrow> WinnerOutcome run" where
  "ConditionalTokenService_getWinnerOutcome chain conditionId networkId =
     andThen (await GetContractAddress
        (addresses_getContractAddress chain networkId ''conditionalTokens''))
       (\<lambda>conditionalTokensAddress.
     andThen (await PayoutNumerators
        (payoutNumerators chain conditionalTokensAddress conditionId 0))
       (\<lambda>yesNumerator.
     return (if yesNumerator = 0 then No else Yes)))"

section \<open>Reading a trace and a batch\<close>

text \<open>The collaborator calls made during a run, in order.\<close>

fun calls :: "event list \<Rightarrow> call list" where
  "calls [] = []"
| "calls (Called c ok # es) = c # calls es"
| "calls (e # es) = calls es"

text \<open>A call to a collaborator that threw.\<close>

fun failedCall :: "event \<Rightarrow> bool" where
  "failedCall (Called c ok) = (\<not> ok)"
| "failedCall e = False"

text \<open>
  A run submits once or never: at most one batch is handed to \<open>execTransactions\<close>;
  a run that returns has handed over exactly one; a run in which a collaborator call
  threw has handed over none.
\<close>

definition submitsOnceOrNever :: "'a run \<Rightarrow> bool" where
  "submitsOnceOrNever r =
     (length (submissions (snd r)) \<le> 1 \<and>
      (returned (fst r) \<longrightarrow> length (submissions (snd r)) = 1) \<and>
      (list_ex failedCall (snd r) \<longrightarrow> submissions (snd r) = []))"

text \<open>What follows a submission: nothing is submitted and no collaborator call throws.\<close>

definition quiet :: "'a run \<Rightarrow> bool" where
  "quiet r = (submissions (snd r) = [] \<and> \<not> list_ex failedCall (snd r))"

text \<open>
  What a call descriptor of a create-market batch is, read off its payload: the wrap
  call is the one with no payload and an attached value.
\<close>

datatype kind =
  Wrap | AskQuestion | PrepareCondition | Approve | TransferFunding | CreateMarketMaker | Other

fun kindOf :: "tx \<Rightarrow> kind" where
  "kindOf t =
     (case tx_data t of
        None \<Rightarrow> (if tx_value t = None then Other else Wrap)
      | Some (encodeAskQuestion q os c a d n) \<Rightarrow> AskQuestion
      | Some (encodePrepareCondition q a n) \<Rightarrow> PrepareCondition
      | Some (encodeApproveUnlimited sp) \<Rightarrow> Approve
      | Some (encodeTransferFrom a b v) \<Rightarrow> TransferFunding
      | Some (encodeCreateMarketMaker n c a ci sp f h) \<Rightarrow> CreateMarketMaker
      | Some _ \<Rightarrow> Other)"

text \<open>
  Matching case-insensitively, in the spec's words: the strings have the same length and
  at each position the characters are equal or one is the lower-case form of the other.
\<close>

definition sameCharIgnoringCase :: "char \<Rightarrow> char \<Rightarrow> bool" where
  "sameCharIgnoringCase c d = (c = d \<or> toLowerChar c = d \<or> toLowerChar d = c)"

definition matchIgnoringCase :: "string \<Rightarrow> string \<Rightarrow> bool" where
  "matchIgnoringCase a b = list_all2 sameCharIgnoringCase a b"

section \<open>A concrete world\<close>

text \<open>
  A user \<open>0xuser\<close> with proxy \<open>0xproxy\<close> on network 1, a market \<open>0xmarket\<close> over the token
  \<open>0xdai\<close> quoting 95 outcome tokens, no allowance granted yet, and every collaborator
  answering.
\<close>

definition example_imports :: Imports where
  "example_imports =
     \<lparr>pseudoEthAddress = ''0xeth'',
      targetGnosisSafeImplementation = ''0xAbC'',
      getToken = (\<lambda>networkId name.
        if name = ''weth''
        then Inr \<lparr>token_address = ''0xweth'', token_symbol = ''WETH'', token_decimals = 18\<rparr>
        else Inl (Error ''unknown token'')),
      getContractAddress = (\<lambda>networkId name. Inr ''0xoracle''),
      calcDistributionHint = (\<lambda>probabilities. []),
      allowance = (\<lambda>token owner spender. Inr 0),
      saltNonce = 42\<rparr>"

definition example_cpk :: CPKService where
  "example_cpk =
     \<lparr>cpk_address = ''0xproxy'',
      execTransactions = (\<lambda>transactions txOptions. Inr ''0xhash''),
      isProxyDeployed = Inr True,
      signer_getAddress = Inr ''0xuser'',
      getNetwork = Inr 1,
      waitForTransaction = (\<lambda>txHash. Inr ''receipt''),
      masterCopy = Inr ''0xaBc''\<rparr>"

definition example_marketMaker :: MarketMakerService where
  "example_marketMaker =
     \<lparr>mm_address = ''0xmarket'',
      getCollateralToken = Inr ''0xdai'',
      calcBuyAmount = (\<lambda>amount outcomeIndex. Inr 95),
      calcSellAmount = (\<lambda>amount outcomeIndex. Inr 105),
      mm_getConditionId = Inr ''0xcondition''\<rparr>"

definition example_conditionalTokens :: ConditionalTokens where
  "example_conditionalTokens =
     \<lparr>ct_address = ''0xct'',
      isApprovedForAll = (\<lambda>owner operator. Inr False),
      doesConditionExist = (\<lambda>conditionId. Inr True),
      getConditionId = (\<lambda>questionId oracleAddress outcomeSlotCount. ''0xcondition'')\<rparr>"

definition example_realitio :: RealitioService where
  "example_realitio =
     \<lparr>realitio_address = ''0xrealitio'',
      askQuestionConstant = (\<lambda>q os c a d n sender. Inr ''0xasked'')\<rparr>"

definition example_factory :: MarketMakerFactoryService where
  "example_factory =
     \<lparr>factory_address = ''0xfactory'',
      predictMarketMakerAddress = (\<lambda>n ct c ci sender sp. Inr ''0xpredicted'')\<rparr>"

definition example_oracle :: OracleService where
  "example_oracle = \<lparr>oracle_address = ''0xoracle''\<rparr>"

definition example_question :: Question where
  "example_question =
     \<lparr>question_id = ''0xquestion'', question_templateId = 2, question_raw = ''raw''\<rparr>"

definition example_dai :: Token where
  "example_dai = \<lparr>token_address = ''0xdai'', token_symbol = ''DAI'', token_decimals = 18\<rparr>"

text \<open>
  Market data funded with 1000 of the native asset, for a question that was loaded
  (\<open>0xquestion\<close>) and whose condition exists already.
\<close>

definition example_marketData :: MarketData where
  "example_marketData =
     \<lparr>arbitrator = \<lparr>arbitrator_address = ''0xarbitrator''\<rparr>,
      category = ''Sports'',
      loadedQuestionId = Some ''0xquestion'',
      outcomes = [\<lparr>outcome_name = ''Yes'', outcome_probability = 50\<rparr>,
                  \<lparr>outcome_name = ''No'', outcome_probability = 50\<rparr>],
      question = ''Who wins?'',
      resolution = Some 1600000000,
      spread = 1,
      collateral = \<lparr>token_address = ''0xeth'', token_symbol = ''ETH'', token_decimals = 18\<rparr>,
      funding = 1000\<rparr>"

text \<open>A prepared condition that nobody has reported on: denominator and numerators 0.\<close>

definition example_chain :: Chain where
  "example_chain =
     \<lparr>addresses_getContractAddress = (\<lambda>networkId name. Inr ''0xct''),
      payoutNumerators = (\<lambda>contract conditionId index. Inr 0),
      payoutDenominator = (\<lambda>contract conditionId. Inr 0),
      contract_redeemPositions = (\<lambda>contract c p ci sets. Inr ''0xhash'')\<rparr>"

lemmas example_defs =
  example_imports_def example_cpk_def example_marketMaker_def example_conditionalTokens_def
  example_realitio_def example_factory_def example_oracle_def example_question_def
  example_dai_def example_marketData_def example_chain_def

section \<open>Laws of sequencing\<close>

lemma andThen_return [simp]: "andThen (return x) f = f x"
  by (simp add: andThen_def return_def)

lemma andThen_assoc [simp]: "andThen (andThen m g) f = andThen m (\<lambda>x. andThen (g x) f)"
  by (simp add: andThen_def split: sum.splits)

lemma andThen_throw [simp]: "andThen (throw e) f = throw e"
  by (simp add: andThen_def throw_def)

subsection \<open>The submissions of a run\<close>

lemma submissions_append [simp]: "submissions (xs @ ys) = submissions xs @ submissions ys"
  by (induction xs rule: submissions.induct) simp_all

lemma submissions_await [simp]:
  "submissions (snd (andThen (await c r) f)) =
     (case r of Inl e \<Rightarrow> [] | Inr x \<Rightarrow> submissions (snd (f x)))"
  by (simp add: andThen_def await_def split: sum.splits)

lemma submissions_log [simp]:
  "submissions (snd (andThen logger_log f)) = submissions (snd (f ()))"
  by (simp add: andThen_def logger_log_def)

lemma submissions_exec [simp]:
  "submissions (snd (andThen (exec this txs opts) f)) =
     (txs, opts) #
     (case execTransactions this txs opts of Inl e \<Rightarrow> [] | Inr h \<Rightarrow> submissions (snd (f h)))"
  by (simp add: andThen_def exec_def split: sum.splits)

lemma submissions_wait [simp]: "submissions (snd (wait this h)) = []"
  by (simp add: wait_def)

lemma submissions_wait_then [simp]:
  "submissions (snd (andThen (wait this h) f)) =
     (case waitForTransaction this h of Inl e \<Rightarrow> [] | Inr x \<Rightarrow> submissions (snd (f x)))"
  by (simp add: andThen_def wait_def split: sum.splits)

lemma submissions_return [simp]: "submissions (snd (return x)) = []"
  by (simp add: return_def)

lemma submissions_throw [simp]: "submissions (snd (throw e)) = []"
  by (simp add: throw_def)

lemma submissions_try [simp]: "submissions (snd (tryLogRethrow m)) = submissions (snd m)"
  by (simp add: tryLogRethrow_def split: sum.splits)

subsection \<open>The calls of a run\<close>

lemma calls_append [simp]: "calls (xs @ ys) = calls xs @ calls ys"
  by (induction xs rule: calls.induct) simp_all

lemma calls_await [simp]:
  "calls (snd (andThen (await c r) f)) =
     c # (case r of Inl e \<Rightarrow> [] | Inr x \<Rightarrow> calls (snd (f x)))"
  by (simp add: andThen_def await_def split: sum.splits)

lemma calls_log [simp]: "calls (snd (andThen logger_log f)) = calls (snd (f ()))"
  by (simp add: andThen_def logger_log_def)

lemma calls_exec [simp]:
  "calls (snd (andThen (exec this txs opts) f)) =
     (case execTransactions this txs opts of Inl e \<Rightarrow> [] | Inr h \<Rightarrow> calls (snd (f h)))"
  by (simp add: andThen_def exec_def split: sum.splits)

lemma calls_wait_then [simp]:
  "calls (snd (andThen (wait this h) f)) =
     (case waitForTransaction this h of Inl e \<Rightarrow> [] | Inr x \<Rightarrow> calls (snd (f x)))"
  by (simp add: andThen_def wait_def split: sum.splits)

lemma calls_return [simp]: "calls (snd (return x)) = []"
  by (simp add: return_def)

lemma calls_throw [simp]: "calls (snd (throw e)) = []"
  by (simp add: throw_def)

lemma calls_try [simp]: "calls (snd (tryLogRethrow m)) = calls (snd m)"
  by (simp add: tryLogRethrow_def split: sum.splits)

subsection \<open>Submitting once or never, step by step\<close>

lemma once_await:
  "(\<And>x. submitsOnceOrNever (f x)) \<Longrightarrow> submitsOnceOrNever (andThen (await c r) f)"
  by (cases r) (simp_all add: submitsOnceOrNever_def andThen_def await_def)

lemma once_log: "submitsOnceOrNever (f ()) \<Longrightarrow> submitsOnceOrNever (andThen logger_log f)"
  by (simp add: submitsOnceOrNever_def andThen_def logger_log_def)

lemma once_throw: "submitsOnceOrNever (throw e)"
  by (simp add: submitsOnceOrNever_def throw_def)

lemma once_try: "submitsOnceOrNever m \<Longrightarrow> submitsOnceOrNever (tryLogRethrow m)"
  by (cases "fst m") (simp_all add: submitsOnceOrNever_def tryLogRethrow_def)

lemma once_exec:
  "(\<And>h. quiet (f h)) \<Longrightarrow> submitsOnceOrNever (andThen (exec this txs opts) f)"
  by (cases "execTransactions this txs opts")
    (simp_all add: submitsOnceOrNever_def quiet_def andThen_def exec_def)

lemma quiet_wait: "quiet (wait this h)"
  by (simp add: quiet_def wait_def)

lemma quiet_return: "quiet (return x)"
  by (simp add: quiet_def return_def)

lemma quiet_log: "quiet (f ()) \<Longrightarrow> quiet (andThen logger_log f)"
  by (simp add: quiet_def andThen_def logger_log_def)

lemma quiet_wait_then: "(\<And>x. quiet (f x)) \<Longrightarrow> quiet (andThen (wait this h) f)"
  by (cases "waitForTransaction this h") (simp_all add: quiet_def andThen_def wait_def)

lemmas once_rules =
  once_try once_await once_log once_throw once_exec
  quiet_log quiet_wait quiet_wait_then quiet_return

lemma buyOutcomes_once:
  "submitsOnceOrNever (buyOutcomes I this amount marketMaker outcomeIndex)"
  by (auto simp: buyOutcomes_def Let_def intro!: once_rules)

lemma sellOutcomes_once:
  "submitsOnceOrNever (sellOutcomes this amount conditionalTokens marketMaker outcomeIndex)"
  by (auto simp: sellOutcomes_def Let_def intro!: once_rules)

lemma createMarket_once:
  "submitsOnceOrNever
     (createMarket I this conditionalTokens marketData marketMakerFactory realitio)"
  by (auto simp: createMarket_def Let_def intro!: once_rules)

lemma addFunding_once:
  "submitsOnceOrNever (addFunding I this amount collateral' marketMaker)"
  by (auto simp: addFunding_def Let_def intro!: once_rules)

lemma removeFunding_once:
  "submitsOnceOrNever
     (removeFunding this amountToMerge collateralAddress conditionId conditionalTokens
        earnings marketMaker outcomesCount sharesToBurn)"
  by (auto simp: removeFunding_def Let_def intro!: once_rules)

lemma redeemPositions_once:
  "submitsOnceOrNever
     (redeemPositions this collateralToken conditionalTokens earnedCollateral
        isConditionResolved marketMaker numOutcomes oracle question')"
  by (auto simp: redeemPositions_def Let_def intro!: once_rules split: option.splits)

subsection \<open>Lower case\<close>

lemma of_char_less_256: "(of_char c :: nat) < 256"
  by (metis of_char_mod_256 mod_less_divisor zero_less_numeral)

lemma toLowerChar_idem: "toLowerChar (toLowerChar c) = toLowerChar c"
  using of_char_less_256 [of c] by (auto simp: toLowerChar_def Let_def)

lemma toLowerChar_eq_iff: "toLowerChar c = toLowerChar d \<longleftrightarrow> sameCharIgnoringCase c d"
proof
  assume eq: "toLowerChar c = toLowerChar d"
  have "of_char (toLowerChar c) = (of_char (toLowerChar d) :: nat)"
    using eq by simp
  then have "(of_char c :: nat) = of_char d \<or> toLowerChar c = d \<or> toLowerChar d = c"
    using of_char_less_256 [of c] of_char_less_256 [of d]
    by (auto simp: toLowerChar_def Let_def split: if_splits)
  then show "sameCharIgnoringCase c d"
    by (auto simp: sameCharIgnoringCase_def)
next
  assume "sameCharIgnoringCase c d"
  then show "toLowerChar c = toLowerChar d"
    unfolding sameCharIgnoringCase_def using toLowerChar_idem by metis
qed

lemma toLowerCase_eq_iff: "toLowerCase a = toLowerCase b \<longleftrightarrow> matchIgnoringCase a b"
proof -
  have "toLowerCase a = toLowerCase b \<longleftrightarrow>
        list_all2 (=) (map toLowerChar a) (map toLowerChar b)"
    by (simp add: toLowerCase_def list.rel_eq)
  also have "\<dots> \<longleftrightarrow> list_all2 (\<lambda>c d. toLowerChar c = toLowerChar d) a b"
    by (simp add: list_all2_map1 list_all2_map2)
  also have "\<dots> \<longleftrightarrow> matchIgnoringCase a b"
    by (simp add: toLowerChar_eq_iff matchIgnoringCase_def)
  finally show ?thesis .
qed

section \<open>The examples, run\<close>

lemma example_createMarket_native:
  "submissions (snd (createMarket example_imports example_cpk example_conditionalTokens
      example_marketData example_factory example_realitio)) =
     [([\<lparr>tx_to = ''0xweth'', tx_data = None, tx_value = Some 1000\<rparr>,
        \<lparr>tx_to = ''0xweth'', tx_data = Some (encodeApproveUnlimited ''0xfactory''),
         tx_value = None\<rparr>,
        \<lparr>tx_to = ''0xfactory'',
         tx_data = Some (encodeCreateMarketMaker 42 ''0xct'' ''0xweth'' ''0xcondition'' 1 1000 []),
         tx_value = None\<rparr>],
       Some \<lparr>opt_value = Some 1000, opt_gas = None\<rparr>)]"
  by (simp add: createMarket_def Let_def example_defs)

lemma example_createMarket_token:
  "submissions (snd (createMarket example_imports example_cpk example_conditionalTokens
      (example_marketData\<lparr>collateral := example_dai\<rparr>) example_factory example_realitio)) =
     [([\<lparr>tx_to = ''0xdai'', tx_data = Some (encodeApproveUnlimited ''0xfactory''),
         tx_value = None\<rparr>,
        \<lparr>tx_to = ''0xdai'', tx_data = Some (encodeTransferFrom ''0xuser'' ''0xproxy'' 1000),
         tx_value = None\<rparr>,
        \<lparr>tx_to = ''0xfactory'',
         tx_data = Some (encodeCreateMarketMaker 42 ''0xct'' ''0xdai'' ''0xcondition'' 1 1000 []),
         tx_value = None\<rparr>],
       Some \<lparr>opt_value = None, opt_gas = None\<rparr>)]"
  by (simp add: createMarket_def Let_def example_defs)

lemma example_createMarket_asked:
  "submissions (snd (createMarket example_imports example_cpk example_conditionalTokens
      (example_marketData\<lparr>loadedQuestionId := None, collateral := example_dai\<rparr>)
      example_factory example_realitio)) =
     [([\<lparr>tx_to = ''0xrealitio'',
         tx_data = Some (encodeAskQuestion ''Who wins?''
           [\<lparr>outcome_name = ''Yes'', outcome_probability = 50\<rparr>,
            \<lparr>outcome_name = ''No'', outcome_probability = 50\<rparr>]
           ''Sports'' ''0xarbitrator'' 1600000000 1),
         tx_value = None\<rparr>,
        \<lparr>tx_to = ''0xct'', tx_data = Some (encodePrepareCondition ''0xasked'' ''0xoracle'' 2),
         tx_value = None\<rparr>,
        \<lparr>tx_to = ''0xdai'', tx_data = Some (encodeApproveUnlimited ''0xfactory''),
         tx_value = None\<rparr>,
        \<lparr>tx_to = ''0xdai'', tx_data = Some (encodeTransferFrom ''0xuser'' ''0xproxy'' 1000),
         tx_value = None\<rparr>,
        \<lparr>tx_to = ''0xfactory'',
         tx_data = Some (encodeCreateMarketMaker 42 ''0xct'' ''0xdai'' ''0xcondition'' 1 1000 []),
         tx_value = None\<rparr>],
       Some \<lparr>opt_value = None, opt_gas = None\<rparr>)]"
  by (simp add: createMarket_def Let_def example_defs)

section \<open>Buy outcomes\<close>

text \<open>
  C1. Whenever the queries of \<open>buyOutcomes\<close> answer, it hands exactly one batch to
  \<open>execTransactions\<close>. If the allowance of the proxy to the market maker is at least the
  requested amount, the batch is exactly two calls, the transfer of the collateral from
  the user to the proxy and then the buy; otherwise it is exactly three calls, the
  approve-unlimited call first, then the transfer, then the buy.
\<close>

theorem buyOutcomes_batch:
  assumes "signer_getAddress this = Inr account"
      and "getCollateralToken marketMaker = Inr collateralAddress"
      and "calcBuyAmount marketMaker amount outcomeIndex = Inr minOut"
      and "allowance I collateralAddress (cpk_address this) (mm_address marketMaker) = Inr a"
  shows "submissions (snd (buyOutcomes I this amount marketMaker outcomeIndex)) =
     [(if amount \<le> a
       then [\<lparr>tx_to = collateralAddress,
               tx_data = Some (encodeTransferFrom account (cpk_address this) amount),
               tx_value = None\<rparr>,
              \<lparr>tx_to = mm_address marketMaker,
               tx_data = Some (encodeBuy amount outcomeIndex minOut),
               tx_value = None\<rparr>]
       else [\<lparr>tx_to = collateralAddress,
               tx_data = Some (encodeApproveUnlimited (mm_address marketMaker)),
               tx_value = None\<rparr>,
              \<lparr>tx_to = collateralAddress,
               tx_data = Some (encodeTransferFrom account (cpk_address this) amount),
               tx_value = None\<rparr>,
              \<lparr>tx_to = mm_address marketMaker,
               tx_data = Some (encodeBuy amount outcomeIndex minOut),
               tx_value = None\<rparr>],
       None)]"
  using assms by (simp add: buyOutcomes_def hasEnoughAllowance_def Let_def split: sum.splits)

text \<open>
  The spec's scenario: allowance 0, amount 100, outcome 1 and a quote of 95.
\<close>

theorem buyOutcomes_batch_witness:
  "submissions (snd (buyOutcomes example_imports example_cpk 100 example_marketMaker 1)) =
     [([\<lparr>tx_to = ''0xdai'', tx_data = Some (encodeApproveUnlimited ''0xmarket''),
         tx_value = None\<rparr>,
        \<lparr>tx_to = ''0xdai'', tx_data = Some (encodeTransferFrom ''0xuser'' ''0xproxy'' 100),
         tx_value = None\<rparr>,
        \<lparr>tx_to = ''0xmarket'', tx_data = Some (encodeBuy 100 1 95), tx_value = None\<rparr>],
       None)]"
  using buyOutcomes_batch [where this = example_cpk and account = "''0xuser''"
      and marketMaker = example_marketMaker and collateralAddress = "''0xdai''"
      and amount = 100 and outcomeIndex = 1 and minOut = 95 and I = example_imports and a = 0]
  by (simp add: example_defs)

section \<open>Redeem positions\<close>

text \<open>
  With the condition resolved and an earned collateral of zero, the batch still ends
  with a transfer to the user, of amount 0: a \<open>BigNumber\<close> zero is an object and passes the
  test \<open>if (earnedCollateral)\<close>.
\<close>

theorem redeemPositions_zero_earned_still_transfers:
  "submissions (snd (redeemPositions example_cpk example_dai example_conditionalTokens (Some 0)
      True example_marketMaker 2 example_oracle example_question)) =
     [([\<lparr>tx_to = ''0xct'', tx_data = Some (encodeRedeemPositions ''0xdai'' ''0xcondition'' 2),
         tx_value = None\<rparr>,
        \<lparr>tx_to = ''0xdai'', tx_data = Some (encodeTransfer ''0xuser'' 0), tx_value = None\<rparr>],
       None)]"
  by (simp add: redeemPositions_def Let_def example_defs)

text \<open>
  C2, as the code has it. Whenever the queries of \<open>redeemPositions\<close> answer, the one
  batch it submits is: the resolve-condition call exactly when \<open>isConditionResolved\<close> is
  false; then the redeem-positions call; then the transfer to the user exactly when an
  earned collateral is passed (any \<open>BigNumber\<close>, zero included), and no transfer only when
  none is passed. The two choices do not depend on each other.
\<close>

theorem redeemPositions_batch:
  assumes "signer_getAddress this = Inr account"
      and "mm_getConditionId marketMaker = Inr conditionId"
  shows "submissions (snd (redeemPositions this collateralToken conditionalTokens
            earnedCollateral isConditionResolved marketMaker numOutcomes oracleService question')) =
     [((if isConditionResolved then []
        else [\<lparr>tx_to = oracle_address oracleService,
                tx_data = Some (encodeResolveCondition (question_id question')
                  (question_templateId question') (question_raw question') numOutcomes),
                tx_value = None\<rparr>]) @
       [\<lparr>tx_to = ct_address conditionalTokens,
         tx_data = Some (encodeRedeemPositions (token_address collateralToken) conditionId
           numOutcomes),
         tx_value = None\<rparr>] @
       (case earnedCollateral of
          None \<Rightarrow> []
        | Some earned \<Rightarrow>
            [\<lparr>tx_to = token_address collateralToken,
              tx_data = Some (encodeTransfer account earned),
              tx_value = None\<rparr>]),
       None)]"
  using assms by (simp add: redeemPositions_def Let_def split: option.splits sum.splits)

theorem redeemPositions_batch_witness:
  "submissions (snd (redeemPositions example_cpk example_dai example_conditionalTokens None
      False example_marketMaker 2 example_oracle example_question)) =
     [([\<lparr>tx_to = ''0xoracle'',
         tx_data = Some (encodeResolveCondition ''0xquestion'' 2 ''raw'' 2), tx_value = None\<rparr>,
        \<lparr>tx_to = ''0xct'', tx_data = Some (encodeRedeemPositions ''0xdai'' ''0xcondition'' 2),
         tx_value = None\<rparr>],
       None)]"
  using redeemPositions_batch [where this = example_cpk and account = "''0xuser''"
      and marketMaker = example_marketMaker and conditionId = "''0xcondition''"
      and collateralToken = example_dai and conditionalTokens = example_conditionalTokens
      and earnedCollateral = None and isConditionResolved = False and numOutcomes = 2
      and oracleService = example_oracle and question' = example_question]
  by (simp add: example_defs)

section \<open>Create market\<close>

text \<open>
  C3. In every batch \<open>createMarket\<close> submits: when the collateral is the native asset
  (its address is \<open>pseudoEthAddress\<close>), the first call is the wrap call to the wrapped
  token, with no payload and the funding amount attached, the options carry the same
  value, and no transfer-funding call is in the batch; when the collateral is a regular
  token, no wrap call is in the batch and the transfer of the funding from the user to
  the proxy is.
\<close>

theorem createMarket_native_or_token:
  assumes "(txs, opts) \<in> set (submissions (snd
     (createMarket I this conditionalTokens marketData marketMakerFactory realitio)))"
  shows "if token_address (collateral marketData) = pseudoEthAddress I
     then (\<exists>networkId weth.
             getNetwork this = Inr networkId \<and> getToken I networkId ''weth'' = Inr weth \<and>
             txs \<noteq> [] \<and>
             hd txs = \<lparr>tx_to = token_address weth, tx_data = None,
                        tx_value = Some (funding marketData)\<rparr>) \<and>
          kindOf (hd txs) = Wrap \<and>
          TransferFunding \<notin> set (map kindOf txs) \<and>
          opts = Some \<lparr>opt_value = Some (funding marketData), opt_gas = None\<rparr>
     else Wrap \<notin> set (map kindOf txs) \<and>
          (\<exists>account.
             signer_getAddress this = Inr account \<and>
             \<lparr>tx_to = token_address (collateral marketData),
              tx_data = Some (encodeTransferFrom account (cpk_address this)
                (funding marketData)),
              tx_value = None\<rparr> \<in> set txs) \<and>
          TransferFunding \<in> set (map kindOf txs)"
  using assms
  by (auto simp: createMarket_def Let_def split: sum.splits if_splits) metis+

theorem createMarket_native_or_token_witness:
  "(\<exists>txs opts.
      (txs, opts) \<in> set (submissions (snd
        (createMarket example_imports example_cpk example_conditionalTokens
           example_marketData example_factory example_realitio))) \<and>
      hd txs = \<lparr>tx_to = ''0xweth'', tx_data = None, tx_value = Some 1000\<rparr> \<and>
      TransferFunding \<notin> set (map kindOf txs)) \<and>
   (\<exists>txs opts.
      (txs, opts) \<in> set (submissions (snd
        (createMarket example_imports example_cpk example_conditionalTokens
           (example_marketData\<lparr>collateral := example_dai\<rparr>) example_factory
           example_realitio))) \<and>
      Wrap \<notin> set (map kindOf txs) \<and> TransferFunding \<in> set (map kindOf txs))"
proof -
  let ?native = "[\<lparr>tx_to = ''0xweth'', tx_data = None, tx_value = Some 1000\<rparr>,
        \<lparr>tx_to = ''0xweth'', tx_data = Some (encodeApproveUnlimited ''0xfactory''),
         tx_value = None\<rparr>,
        \<lparr>tx_to = ''0xfactory'',
         tx_data = Some (encodeCreateMarketMaker 42 ''0xct'' ''0xweth'' ''0xcondition'' 1 1000 []),
         tx_value = None\<rparr>]"
  let ?token = "[\<lparr>tx_to = ''0xdai'', tx_data = Some (encodeApproveUnlimited ''0xfactory''),
         tx_value = None\<rparr>,
        \<lparr>tx_to = ''0xdai'', tx_data = Some (encodeTransferFrom ''0xuser'' ''0xproxy'' 1000),
         tx_value = None\<rparr>,
        \<lparr>tx_to = ''0xfactory'',
         tx_data = Some (encodeCreateMarketMaker 42 ''0xct'' ''0xdai'' ''0xcondition'' 1 1000 []),
         tx_value = None\<rparr>]"
  have n: "(?native, Some \<lparr>opt_value = Some 1000, opt_gas = None\<rparr>) \<in> set (submissions (snd
        (createMarket example_imports example_cpk example_conditionalTokens
           example_marketData example_factory example_realitio)))"
    by (simp add: example_createMarket_native)
  have t: "(?token, Some \<lparr>opt_value = None, opt_gas = None\<rparr>) \<in> set (submissions (snd
        (createMarket example_imports example_cpk example_conditionalTokens
           (example_marketData\<lparr>collateral := example_dai\<rparr>) example_factory
           example_realitio)))"
    by (simp add: example_createMarket_token)
  have "hd ?native = \<lparr>tx_to = ''0xweth'', tx_data = None, tx_value = Some 1000\<rparr> \<and>
      TransferFunding \<notin> set (map kindOf ?native)"
    using createMarket_native_or_token [OF n] by (simp add: example_defs)
  moreover have "Wrap \<notin> set (map kindOf ?token) \<and> TransferFunding \<in> set (map kindOf ?token)"
    using createMarket_native_or_token [OF t] by (simp add: example_defs)
  ultimately show ?thesis
    using n t by blast
qed

text \<open>
  With a loaded question id, an existing condition and the native asset as collateral,
  the batch is wrap, approve, create market maker: it holds a wrap call, which is none of
  approve, transfer funding and create market maker.
\<close>

theorem createMarket_loaded_native_has_wrap:
  "truthy (loadedQuestionId example_marketData) \<and>
   doesConditionExist example_conditionalTokens
     (getConditionId example_conditionalTokens ''0xquestion'' ''0xoracle'' 2) = Inr True \<and>
   submissions (snd (createMarket example_imports example_cpk example_conditionalTokens
      example_marketData example_factory example_realitio)) =
     [([\<lparr>tx_to = ''0xweth'', tx_data = None, tx_value = Some 1000\<rparr>,
        \<lparr>tx_to = ''0xweth'', tx_data = Some (encodeApproveUnlimited ''0xfactory''),
         tx_value = None\<rparr>,
        \<lparr>tx_to = ''0xfactory'',
         tx_data = Some (encodeCreateMarketMaker 42 ''0xct'' ''0xweth'' ''0xcondition'' 1 1000 []),
         tx_value = None\<rparr>],
       Some \<lparr>opt_value = Some 1000, opt_gas = None\<rparr>)] \<and>
   kindOf \<lparr>tx_to = ''0xweth'', tx_data = None, tx_value = Some 1000\<rparr> = Wrap"
  using example_createMarket_native by (simp add: example_defs)

text \<open>
  C4, as the code has it. In every batch \<open>createMarket\<close> submits for a loaded
  (non-empty) question id whose condition exists already, there is no ask-question and no
  prepare-condition call: the batch is approve, transfer funding, create market maker
  for a regular token, and wrap, approve, create market maker for the native asset.
  Without a loaded question id, \<open>doesConditionExist\<close> is never called, and every batch
  submitted holds the ask-question and the prepare-condition call.
\<close>

theorem createMarket_question_and_condition:
  "(\<forall>networkId oracleAddress txs opts.
      truthy (loadedQuestionId marketData) \<and>
      getNetwork this = Inr networkId \<and>
      getContractAddress I networkId ''oracle'' = Inr oracleAddress \<and>
      doesConditionExist conditionalTokens
        (getConditionId conditionalTokens (the (loadedQuestionId marketData)) oracleAddress
           (length (outcomes marketData))) = Inr True \<and>
      (txs, opts) \<in> set (submissions (snd
        (createMarket I this conditionalTokens marketData marketMakerFactory realitio))) \<longrightarrow>
      map kindOf txs =
        (if token_address (collateral marketData) = pseudoEthAddress I
         then [Wrap, Approve, CreateMarketMaker]
         else [Approve, TransferFunding, CreateMarketMaker])) \<and>
   (\<not> truthy (loadedQuestionId marketData) \<longrightarrow>
      DoesConditionExist \<notin> set (calls (snd
        (createMarket I this conditionalTokens marketData marketMakerFactory realitio))) \<and>
      (\<forall>(txs, opts) \<in> set (submissions (snd
          (createMarket I this conditionalTokens marketData marketMakerFactory realitio))).
         map kindOf txs =
           (if token_address (collateral marketData) = pseudoEthAddress I
            then [Wrap, AskQuestion, PrepareCondition, Approve, CreateMarketMaker]
            else [AskQuestion, PrepareCondition, Approve, TransferFunding,
                  CreateMarketMaker])))"
proof (intro conjI allI impI)
  fix networkId oracleAddress txs opts
  assume "truthy (loadedQuestionId marketData) \<and>
      getNetwork this = Inr networkId \<and>
      getContractAddress I networkId ''oracle'' = Inr oracleAddress \<and>
      doesConditionExist conditionalTokens
        (getConditionId conditionalTokens (the (loadedQuestionId marketData)) oracleAddress
           (length (outcomes marketData))) = Inr True \<and>
      (txs, opts) \<in> set (submissions (snd
        (createMarket I this conditionalTokens marketData marketMakerFactory realitio)))"
  then show "map kindOf txs =
        (if token_address (collateral marketData) = pseudoEthAddress I
         then [Wrap, Approve, CreateMarketMaker]
         else [Approve, TransferFunding, CreateMarketMaker])"
    by (auto simp: createMarket_def Let_def split: sum.splits if_splits)
next
  assume "\<not> truthy (loadedQuestionId marketData)"
  then show "DoesConditionExist \<notin> set (calls (snd
        (createMarket I this conditionalTokens marketData marketMakerFactory realitio)))"
    by (auto simp: createMarket_def Let_def split: sum.splits if_splits)
next
  assume "\<not> truthy (loadedQuestionId marketData)"
  then show "\<forall>(txs, opts) \<in> set (submissions (snd
          (createMarket I this conditionalTokens marketData marketMakerFactory realitio))).
         map kindOf txs =
           (if token_address (collateral marketData) = pseudoEthAddress I
            then [Wrap, AskQuestion, PrepareCondition, Approve, CreateMarketMaker]
            else [AskQuestion, PrepareCondition, Approve, TransferFunding,
                  CreateMarketMaker])"
    by (auto simp: createMarket_def Let_def split: sum.splits if_splits)
qed

theorem createMarket_question_and_condition_witness:
  "map kindOf
     [\<lparr>tx_to = ''0xweth'', tx_data = None, tx_value = Some 1000\<rparr>,
      \<lparr>tx_to = ''0xweth'', tx_data = Some (encodeApproveUnlimited ''0xfactory''),
       tx_value = None\<rparr>,
      \<lparr>tx_to = ''0xfactory'',
       tx_data = Some (encodeCreateMarketMaker 42 ''0xct'' ''0xweth'' ''0xcondition'' 1 1000 []),
       tx_value = None\<rparr>] = [Wrap, Approve, CreateMarketMaker] \<and>
   DoesConditionExist \<notin> set (calls (snd
     (createMarket example_imports example_cpk example_conditionalTokens
        (example_marketData\<lparr>loadedQuestionId := None, collateral := example_dai\<rparr>)
        example_factory example_realitio))) \<and>
   map kindOf (fst (hd (submissions (snd
     (createMarket example_imports example_cpk example_conditionalTokens
        (example_marketData\<lparr>loadedQuestionId := None, collateral := example_dai\<rparr>)
        example_factory example_realitio))))) =
     [AskQuestion, PrepareCondition, Approve, TransferFunding, CreateMarketMaker]"
proof -
  let ?native = "[\<lparr>tx_to = ''0xweth'', tx_data = None, tx_value = Some 1000\<rparr>,
      \<lparr>tx_to = ''0xweth'', tx_data = Some (encodeApproveUnlimited ''0xfactory''),
       tx_value = None\<rparr>,
      \<lparr>tx_to = ''0xfactory'',
       tx_data = Some (encodeCreateMarketMaker 42 ''0xct'' ''0xweth'' ''0xcondition'' 1 1000 []),
       tx_value = None\<rparr>]"
  let ?asked = "example_marketData\<lparr>loadedQuestionId := None, collateral := example_dai\<rparr>"
  have loaded: "map kindOf ?native = [Wrap, Approve, CreateMarketMaker]"
    using createMarket_question_and_condition
      [where marketData = example_marketData and this = example_cpk
         and I = example_imports and conditionalTokens = example_conditionalTokens
         and marketMakerFactory = example_factory and realitio = example_realitio,
       THEN conjunct1, rule_format,
       of 1 "''0xoracle''" ?native "Some \<lparr>opt_value = Some 1000, opt_gas = None\<rparr>"]
      example_createMarket_native
    by (simp add: example_defs)
  have asked: "DoesConditionExist \<notin> set (calls (snd
       (createMarket example_imports example_cpk example_conditionalTokens ?asked
          example_factory example_realitio))) \<and>
     (\<forall>(txs, opts) \<in> set (submissions (snd
         (createMarket example_imports example_cpk example_conditionalTokens ?asked
            example_factory example_realitio))).
        map kindOf txs =
          [AskQuestion, PrepareCondition, Approve, TransferFunding, CreateMarketMaker])"
    using createMarket_question_and_condition
      [where marketData = ?asked and this = example_cpk
         and I = example_imports and conditionalTokens = example_conditionalTokens
         and marketMakerFactory = example_factory and realitio = example_realitio,
       THEN conjunct2]
    by (simp add: example_defs)
  show ?thesis
    using loaded asked by (simp add: example_createMarket_asked)
qed

text \<open>
  C6. Without a resolution time \<open>createMarket\<close> throws
  \<open>Resolution time was not specified\<close>; its whole trace is the line of the error log: no
  collaborator was called, nothing was submitted or waited for.
\<close>

theorem createMarket_requires_resolution:
  assumes "resolution marketData = None"
  shows "createMarket I this conditionalTokens marketData marketMakerFactory realitio =
     (Inl (Error ''Resolution time was not specified''), [LoggedError])"
  using assms by (simp add: createMarket_def tryLogRethrow_def throw_def)

theorem createMarket_requires_resolution_witness:
  "createMarket example_imports example_cpk example_conditionalTokens
     (example_marketData\<lparr>resolution := None\<rparr>) example_factory example_realitio =
     (Inl (Error ''Resolution time was not specified''), [LoggedError])"
  using createMarket_requires_resolution [where marketData = "example_marketData\<lparr>resolution := None\<rparr>"]
  by simp

section \<open>Remove funding\<close>

text \<open>
  C5. Whatever its inputs, \<open>removeFunding\<close> submits, once the signer's address is known,
  one batch of exactly three calls in the order burn market shares, merge positions,
  transfer collateral; the amount of the transfer is \<open>amountToMerge + earnings\<close>. It
  submits nothing when the address query throws.
\<close>

theorem removeFunding_batch:
  "submissions (snd (removeFunding this amountToMerge collateralAddress conditionId
      conditionalTokens earnings marketMaker outcomesCount sharesToBurn)) =
     (case signer_getAddress this of
        Inl e \<Rightarrow> []
      | Inr account \<Rightarrow>
          [([\<lparr>tx_to = mm_address marketMaker,
              tx_data = Some (encodeRemoveFunding sharesToBurn),
              tx_value = None\<rparr>,
             \<lparr>tx_to = ct_address conditionalTokens,
              tx_data = Some (encodeMergePositions collateralAddress conditionId
                outcomesCount amountToMerge),
              tx_value = None\<rparr>,
             \<lparr>tx_to = collateralAddress,
              tx_data = Some (encodeTransfer account (amountToMerge + earnings)),
              tx_value = None\<rparr>],
            None)])"
  by (simp add: removeFunding_def Let_def split: sum.splits)

section \<open>Is the proxy up to date\<close>

text \<open>
  C7. \<open>proxyIsUpToDate\<close> returns false when the proxy is not deployed, and when it is
  deployed and its implementation address does not match the target case-insensitively;
  it returns true exactly when the proxy is deployed and the addresses match
  case-insensitively.
\<close>

theorem proxyIsUpToDate_iff:
  "(isProxyDeployed this = Inr False \<longrightarrow> fst (proxyIsUpToDate I this) = Inr False) \<and>
   (\<forall>implementation.
      isProxyDeployed this = Inr True \<and> masterCopy this = Inr implementation \<and>
      \<not> matchIgnoringCase implementation (targetGnosisSafeImplementation I) \<longrightarrow>
      fst (proxyIsUpToDate I this) = Inr False) \<and>
   (fst (proxyIsUpToDate I this) = Inr True \<longleftrightarrow>
      isProxyDeployed this = Inr True \<and>
      (\<exists>implementation. masterCopy this = Inr implementation \<and>
         matchIgnoringCase implementation (targetGnosisSafeImplementation I)))"
  by (auto simp: proxyIsUpToDate_def andThen_def await_def return_def toLowerCase_eq_iff
      split: sum.splits)

theorem proxyIsUpToDate_iff_witness:
  "fst (proxyIsUpToDate example_imports example_cpk) = Inr True \<and>
   matchIgnoringCase ''0xaBc'' ''0xAbC'' \<and>
   fst (proxyIsUpToDate example_imports (example_cpk\<lparr>isProxyDeployed := Inr False\<rparr>)) = Inr False \<and>
   \<not> matchIgnoringCase ''0xaBd'' ''0xAbC'' \<and>
   fst (proxyIsUpToDate example_imports (example_cpk\<lparr>masterCopy := Inr ''0xaBd''\<rparr>)) = Inr False"
proof -
  have same: "matchIgnoringCase ''0xaBc'' ''0xAbC''"
    by code_simp
  have differ: "\<not> matchIgnoringCase ''0xaBd'' ''0xAbC''"
    by code_simp
  show ?thesis
    using same differ
      proxyIsUpToDate_iff [where this = example_cpk and I = example_imports]
      proxyIsUpToDate_iff [where this = "example_cpk\<lparr>isProxyDeployed := Inr False\<rparr>"
        and I = example_imports]
      proxyIsUpToDate_iff [where this = "example_cpk\<lparr>masterCopy := Inr ''0xaBd''\<rparr>"
        and I = example_imports]
    by (simp add: example_defs)
qed

section \<open>One submission for each workflow\<close>

text \<open>
  C8. Each of the six workflows (buy, sell, create market, add funding, remove funding,
  redeem) submits at most one batch in a run, exactly one in a run that returns, and none
  in a run where a query or a lookup threw.
\<close>

theorem workflows_submit_once:
  "submitsOnceOrNever (buyOutcomes I this amount marketMaker outcomeIndex) \<and>
   submitsOnceOrNever (sellOutcomes this amount conditionalTokens marketMaker outcomeIndex) \<and>
   submitsOnceOrNever
     (createMarket I this conditionalTokens marketData marketMakerFactory realitio) \<and>
   submitsOnceOrNever (addFunding I this amount collateral' marketMaker) \<and>
   submitsOnceOrNever
     (removeFunding this amountToMerge collateralAddress conditionId conditionalTokens
        earnings marketMaker outcomesCount sharesToBurn) \<and>
   submitsOnceOrNever
     (redeemPositions this collateralToken conditionalTokens earnedCollateral
        isConditionResolved marketMaker numOutcomes oracle question')"
  by (intro conjI buyOutcomes_once sellOutcomes_once createMarket_once addFunding_once
      removeFunding_once redeemPositions_once)

theorem workflows_submit_once_witness:
  "returned (fst (sellOutcomes example_cpk 100 example_conditionalTokens example_marketMaker 1)) \<and>
   length (submissions (snd
     (sellOutcomes example_cpk 100 example_conditionalTokens example_marketMaker 1))) = 1 \<and>
   list_ex failedCall (snd
     (sellOutcomes (example_cpk\<lparr>signer_getAddress := Inl (Error ''locked'')\<rparr>) 100
        example_conditionalTokens example_marketMaker 1)) \<and>
   submissions (snd
     (sellOutcomes (example_cpk\<lparr>signer_getAddress := Inl (Error ''locked'')\<rparr>) 100
        example_conditionalTokens example_marketMaker 1)) = []"
proof -
  have ok: "returned (fst
      (sellOutcomes example_cpk 100 example_conditionalTokens example_marketMaker 1))"
    by (simp add: sellOutcomes_def Let_def example_defs tryLogRethrow_def andThen_def
        await_def exec_def wait_def logger_log_def)
  have failed: "list_ex failedCall (snd
      (sellOutcomes (example_cpk\<lparr>signer_getAddress := Inl (Error ''locked'')\<rparr>) 100
         example_conditionalTokens example_marketMaker 1))"
    by (simp add: sellOutcomes_def Let_def example_defs tryLogRethrow_def andThen_def
        await_def exec_def wait_def logger_log_def)
  show ?thesis
    using ok failed
      workflows_submit_once [where this = example_cpk and amount = 100
        and conditionalTokens = example_conditionalTokens
        and marketMaker = example_marketMaker and outcomeIndex = 1]
      workflows_submit_once [where
        this = "example_cpk\<lparr>signer_getAddress := Inl (Error ''locked'')\<rparr>" and amount = 100
        and conditionalTokens = example_conditionalTokens
        and marketMaker = example_marketMaker and outcomeIndex = 1]
    by (simp add: submitsOnceOrNever_def)
qed

section \<open>The static conditional token service\<close>

text \<open>
  A condition that is not resolved (its payout denominator is 0, so
  \<open>isConditionResolved\<close> is false) is reported as the outcome \<open>No\<close>.
\<close>

theorem getWinnerOutcome_unresolved_reports_No:
  "fst (ConditionalTokenService_isConditionResolved example_chain ''0xcondition'' 1) = Inr False \<and>
   fst (ConditionalTokenService_getWinnerOutcome example_chain ''0xcondition'' 1) = Inr No"
  by (simp add: ConditionalTokenService_isConditionResolved_def
      ConditionalTokenService_getWinnerOutcome_def andThen_def await_def return_def example_defs)

text \<open>
  C9, as the code has it. \<open>getWinnerOutcome\<close> has no unresolved result: whenever its two
  lookups answer, it returns \<open>No\<close> if the payout numerator of outcome 0 is zero and
  \<open>Yes\<close> otherwise, resolved or not.
\<close>

theorem getWinnerOutcome_Yes_or_No:
  "fst (ConditionalTokenService_getWinnerOutcome chain conditionId networkId) =
     (case addresses_getContractAddress chain networkId ''conditionalTokens'' of
        Inl e \<Rightarrow> Inl e
      | Inr conditionalTokensAddress \<Rightarrow>
          (case payoutNumerators chain conditionalTokensAddress conditionId 0 of
             Inl e \<Rightarrow> Inl e
           | Inr yesNumerator \<Rightarrow> Inr (if yesNumerator = 0 then No else Yes)))"
  by (simp add: ConditionalTokenService_getWinnerOutcome_def andThen_def await_def return_def
      split: sum.splits)

text \<open>
  C10. Whatever its inputs, the static \<open>redeemPositions\<close> sends, once the contract
  address is found, one call to the contract, with the zero hash as parent collection id
  and the index sets \<open>[1, 2]\<close>; the outcome count of the condition is not among its
  parameters.
\<close>

theorem ConditionalTokenService_redeemPositions_call:
  "snd (ConditionalTokenService_redeemPositions chain collateralToken conditionId networkId) =
     (case addresses_getContractAddress chain networkId ''conditionalTokens'' of
        Inl e \<Rightarrow> [Called GetContractAddress False]
      | Inr conditionalTokensAddress \<Rightarrow>
          [Called GetContractAddress True,
           ContractRedeemPositions conditionalTokensAddress collateralToken HashZero
             conditionId [1, 2]])"
  by (simp add: ConditionalTokenService_redeemPositions_def andThen_def await_def
      split: sum.splits)

end
